theory Spec2Isabelle
  imports Complex_Main
begin

section \<open>The subtitle-extraction HTTP handler of server.py\<close>

text \<open>
  The program is one request handler class with three methods (\<open>process_request\<close>,
  \<open>do_GET\<close>, \<open>do_POST\<close>) and a start-up function (\<open>run_server\<close>). Everything else it
  touches is the Python runtime, the standard library and the operating system. The
  embedding keeps the three methods and the start-up function as they are written and
  takes the library and the operating system as a record of functions, the \<open>world\<close>:
  a theorem quantified over the world holds whatever the library answers.

  Conventions.
  \<^item> A Python \<open>bytes\<close> is a \<open>string\<close> (a list of 8-bit characters). A Python \<open>str\<close>
    that holds no lone surrogate is represented by its UTF-8 encoding, a \<open>string\<close> too:
    that is every \<open>str\<close> the library hands out here (a decoded body, a query value, the
    captured output of the script, the message of an exception) except the strings of
    \<open>json.loads\<close>, where a \<open>u\<close>-escape of a surrogate code point gives a lone surrogate. A \<open>str\<close>
    in general is a \<open>pystr\<close>: its UTF-8 encoding with every lone surrogate, which has
    none, kept as a code point. \<open>encode('utf-8')\<close> raises on a lone surrogate and
    \<open>decode('utf-8')\<close> raises on ill-formed input.
  \<^item> An exception is a value \<open>Exn c m\<close> of its class and its message (\<open>str(e)\<close>). Every
    class below is a subclass of \<open>Exception\<close>; \<open>KeyboardInterrupt\<close> and \<open>SystemExit\<close> are
    outside the model.
  \<^item> A method returns the pair of the exception that escaped it, if any, and the
    handler state it left.
  \<^item> \<open>print\<close> writes to the server's own standard output, which no response depends on;
    the calls to \<open>print\<close> are left out.
  \<^item> Writing to the connection does not fail, and every library call returns or raises:
    a call that blocks for ever is outside the model.
\<close>

subsection \<open>Python values and exceptions\<close>

datatype exn_class =
  JSONDecodeError | UnicodeDecodeError | UnicodeEncodeError | TypeError | ValueError
  | AttributeError
  | IndexError | OverflowError | OSError | RecursionError | RuntimeError

datatype exn = Exn (cls: exn_class) (msg: string)

text \<open>
  A \<open>str\<close>: the bytes of its UTF-8 encoding, and its lone surrogates (code points
  \<open>0xD800\<close> to \<open>0xDFFF\<close>) where they stand. \<open>from_utf8 s\<close> is the \<open>str\<close> without lone
  surrogates whose encoding is \<open>s\<close>.
\<close>

datatype pychar = Byte char | Lone nat

type_synonym pystr = "pychar list"

definition from_utf8 :: "string \<Rightarrow> pystr" where
  "from_utf8 s = map Byte s"

text \<open>
  The values a target path can be: \<open>None\<close>, a \<open>str\<close>, or whatever else \<open>json.loads\<close>
  puts under a key. A \<open>dict\<close> is the list of its items, keys distinct. A \<open>float\<close> is
  its numeric value (only its being zero is ever looked at).
\<close>

datatype pyval =
  PNone
  | PBool bool
  | PInt int
  | PFloat real
  | PStr pystr
  | PList "pyval list"
  | PDict "(string \<times> pyval) list"

text \<open>\<open>not v\<close> is \<open>\<not> truthy v\<close>: Python's truth value of the built-in types.\<close>

fun truthy :: "pyval \<Rightarrow> bool" where
  "truthy PNone = False"
| "truthy (PBool b) = b"
| "truthy (PInt n) = (n \<noteq> 0)"
| "truthy (PFloat x) = (x \<noteq> 0)"
| "truthy (PStr s) = (s \<noteq> [])"
| "truthy (PList xs) = (xs \<noteq> [])"
| "truthy (PDict kvs) = (kvs \<noteq> [])"

text \<open>The result of \<open>subprocess.run(..., capture_output=True, text=True)\<close>.\<close>

record completed_process =
  returncode :: int
  stdout :: string
  stderr :: string

text \<open>The two attributes of \<open>urlparse\<close>'s result that the handler reads.\<close>

record parse_result =
  url_path :: string
  url_query :: string

subsection \<open>The runtime, the library and the operating system\<close>

record world =
  environ :: "string \<rightharpoonup> string"
    \<comment> \<open>\<open>os.environ\<close>\<close>
  int_of_str :: "string \<Rightarrow> exn + int"
    \<comment> \<open>\<open>int(s)\<close> for a \<open>str\<close>\<close>
  urlparse :: "string \<Rightarrow> exn + parse_result"
    \<comment> \<open>\<open>urllib.parse.urlparse\<close>; it raises on a malformed authority\<close>
  parse_qs :: "string \<Rightarrow> (string \<times> string list) list"
    \<comment> \<open>\<open>urllib.parse.parse_qs\<close>: the items of the dict it returns\<close>
  json_loads :: "string \<Rightarrow> exn + pyval"
    \<comment> \<open>\<open>json.loads\<close> on a \<open>str\<close>\<close>
  stat_ok :: "pystr \<Rightarrow> bool"
    \<comment> \<open>whether \<open>os.stat\<close> succeeds on a path given as \<open>str\<close>\<close>
  exists_other :: "pyval \<Rightarrow> exn + bool"
    \<comment> \<open>\<open>os.path.exists\<close> on a value that is not a \<open>str\<close>
        (a file descriptor, or a \<open>TypeError\<close>)\<close>
  subprocess_run :: "pyval list \<Rightarrow> exn + completed_process"
    \<comment> \<open>\<open>subprocess.run(args, capture_output=True, text=True, check=False)\<close>:
        it returns once the child has exited, or raises\<close>
  py_str :: "pyval \<Rightarrow> string"
    \<comment> \<open>\<open>str(v)\<close> for a value that is not a \<open>str\<close>\<close>
  describe :: "exn_class \<Rightarrow> pyval \<Rightarrow> string"
    \<comment> \<open>the message the interpreter gives an exception of this class that it raises
        itself on this operand\<close>

text \<open>
  \<open>os.path.exists(p)\<close>: \<open>os.stat(p)\<close> succeeded. For a \<open>str\<close> it never raises (the
  library catches \<open>OSError\<close> and \<open>ValueError\<close>, which a path that cannot be encoded
  raises), and the empty path names no entry.
\<close>

definition os_path_exists :: "world \<Rightarrow> pyval \<Rightarrow> exn + bool" where
  "os_path_exists w p =
     (case p of PStr s \<Rightarrow> Inr (s \<noteq> [] \<and> stat_ok w s) | _ \<Rightarrow> exists_other w p)"

text \<open>\<open>{v}\<close> in an f-string: \<open>format(v)\<close>, which is \<open>v\<close> itself for a \<open>str\<close>.\<close>

definition fmt :: "world \<Rightarrow> pyval \<Rightarrow> pystr" where
  "fmt w v = (case v of PStr s \<Rightarrow> s | _ \<Rightarrow> from_utf8 (py_str w v))"

text \<open>
  \<open>s.encode('utf-8')\<close>: the bytes of \<open>s\<close>, or \<open>UnicodeEncodeError\<close> when \<open>s\<close> holds a lone
  surrogate.
\<close>

fun bytes_of :: "pystr \<Rightarrow> string option" where
  "bytes_of [] = Some []"
| "bytes_of (Byte c # r) = map_option ((#) c) (bytes_of r)"
| "bytes_of (Lone n # r) = None"

definition encode_utf8 :: "world \<Rightarrow> pystr \<Rightarrow> exn + string" where
  "encode_utf8 w s =
     (case bytes_of s of
        Some b \<Rightarrow> Inr b
      | None \<Rightarrow> Inl (Exn UnicodeEncodeError (describe w UnicodeEncodeError (PStr s))))"

subsection \<open>The handler object\<close>

text \<open>
  What the handler writes to the connection, by the call that wrote it, and the
  argument vectors it handed to \<open>subprocess.run\<close>.
\<close>

datatype http_out =
  Status nat
  | Header string string
  | EndHeaders
  | Body string

record handler =
  wfile :: "http_out list"
  calls :: "pyval list list"

definition send_response :: "nat \<Rightarrow> handler \<Rightarrow> handler" where
  "send_response code h = h\<lparr>wfile := wfile h @ [Status code]\<rparr>"

definition send_header :: "string \<Rightarrow> string \<Rightarrow> handler \<Rightarrow> handler" where
  "send_header k v h = h\<lparr>wfile := wfile h @ [Header k v]\<rparr>"

definition end_headers :: "handler \<Rightarrow> handler" where
  "end_headers h = h\<lparr>wfile := wfile h @ [EndHeaders]\<rparr>"

definition wfile_write :: "string \<Rightarrow> handler \<Rightarrow> handler" where
  "wfile_write b h = h\<lparr>wfile := wfile h @ [Body b]\<rparr>"

text \<open>
  Every response site of the source starts with the same three calls:
  \<open>send_response(code)\<close>, \<open>send_header('Content-type', 'text/plain')\<close>, \<open>end_headers()\<close>.
\<close>

definition send_head :: "nat \<Rightarrow> handler \<Rightarrow> handler" where
  "send_head code h =
     end_headers (send_header ''Content-type'' ''text/plain'' (send_response code h))"

text \<open>
  Then it writes the body. Where the body is a bytes literal (\<open>b"..."\<close>) nothing can
  raise.
\<close>

definition reply :: "nat \<Rightarrow> string \<Rightarrow> handler \<Rightarrow> handler" where
  "reply code body h = wfile_write body (send_head code h)"

text \<open>
  Where the body is a \<open>str\<close>, the source first sends the head and only then calls
  \<open>wfile.write(s.encode('utf-8'))\<close>: when the encoding raises, the head has been written
  and the body has not.
\<close>

definition reply_text :: "world \<Rightarrow> nat \<Rightarrow> pystr \<Rightarrow> handler \<Rightarrow> exn option \<times> handler" where
  "reply_text w code s h =
     (let h1 = send_head code h
      in case encode_utf8 w s of
           Inl e \<Rightarrow> (Some e, h1)
         | Inr b \<Rightarrow> (None, wfile_write b h1))"

text \<open>
  What the connection has received after a head, and after a head and a body; and the
  state before any call.
\<close>

definition head :: "nat \<Rightarrow> http_out list" where
  "head code = [Status code, Header ''Content-type'' ''text/plain'', EndHeaders]"

definition plain :: "nat \<Rightarrow> string \<Rightarrow> http_out list" where
  "plain code body = head code @ [Body body]"

definition fresh :: handler where
  "fresh = \<lparr>wfile = [], calls = []\<rparr>"

subsection \<open>process_request\<close>

definition EXTRACT_SCRIPT_PATH :: string where
  "EXTRACT_SCRIPT_PATH = ''/scripts/extractor.sh''"

definition required_text :: string where
  "required_text = ''Error: 'path' parameter is required in the URL query or JSON body.''"

text \<open>The f-strings: the target path is a \<open>str\<close> that may hold lone surrogates.\<close>

definition missing_text :: "pystr \<Rightarrow> pystr" where
  "missing_text p =
     from_utf8 (''Error: The specified path does not exist inside the container: '' @ [CHR 0x27])
       @ p @ from_utf8 [CHR 0x27]"

definition success_text :: "pystr \<Rightarrow> string \<Rightarrow> pystr" where
  "success_text p out =
     from_utf8 (''Successfully processed '' @ [CHR 0x27]) @ p
       @ from_utf8 ([CHR 0x27] @ ''.\<newline>\<newline>--- SCRIPT OUTPUT ---\<newline>'') @ from_utf8 out"

definition failure_text :: "pystr \<Rightarrow> string \<Rightarrow> string \<Rightarrow> pystr" where
  "failure_text p err out =
     from_utf8 (''Script failed to process '' @ [CHR 0x27]) @ p
       @ from_utf8 ([CHR 0x27] @ ''.\<newline>\<newline>--- SCRIPT ERROR ---\<newline>'') @ from_utf8 err
       @ from_utf8 ''\<newline>\<newline>--- SCRIPT OUTPUT ---\<newline>'' @ from_utf8 out"

definition unexpected_text :: "exn \<Rightarrow> pystr" where
  "unexpected_text e = from_utf8 (''An unexpected server error occurred: '' @ msg e)"

text \<open>
  The two validation steps come before the \<open>try\<close>, so an exception of
  \<open>os.path.exists\<close>, or of the encoding of the 400 reply, escapes the method. Inside the
  \<open>try\<close> every exception, that of the encoding of the reply too, goes to the
  \<open>except Exception\<close> clause, which sends a head of its own and its text, on top of what
  has been written.
\<close>

definition process_request :: "world \<Rightarrow> pyval \<Rightarrow> handler \<Rightarrow> exn option \<times> handler" where
  "process_request w target_path h =
     (if \<not> truthy target_path then (None, reply 400 required_text h)
      else
        (case os_path_exists w target_path of
           Inl e \<Rightarrow> (Some e, h)
         | Inr False \<Rightarrow> reply_text w 400 (missing_text (fmt w target_path)) h
         | Inr True \<Rightarrow>
             (let args = [PStr (from_utf8 EXTRACT_SCRIPT_PATH), target_path];
                  h1 = h\<lparr>calls := calls h @ [args]\<rparr>;
                  try =
                    (case subprocess_run w args of
                       Inl e \<Rightarrow> (Some e, h1)
                     | Inr result \<Rightarrow>
                         if returncode result = 0
                         then reply_text w 200
                                (success_text (fmt w target_path) (stdout result)) h1
                         else reply_text w 500
                                (failure_text (fmt w target_path) (stderr result)
                                   (stdout result)) h1)
              in case try of
                   (None, h2) \<Rightarrow> (None, h2)
                 | (Some e, h2) \<Rightarrow> reply_text w 500 (unexpected_text e) h2)))"

subsection \<open>The request\<close>

text \<open>
  What the handler object holds of the request when \<open>do_GET\<close> or \<open>do_POST\<close> is called:
  the request target (\<open>self.path\<close>), the header values by name (\<open>self.headers[name]\<close>,
  \<open>None\<close> for a header that is absent) and the input stream, by what
  \<open>self.rfile.read(n)\<close> returns on it. A read that never returns is outside the model.
\<close>

record request =
  path :: string
  headers :: "string \<rightharpoonup> string"
  rfile_read :: "int \<Rightarrow> exn + string"

subsection \<open>do_GET\<close>

text \<open>\<open>query_params.get('path', [None])[0]\<close>\<close>

definition query_target :: "(string \<times> string list) list \<Rightarrow> exn + pyval" where
  "query_target query_params =
     (case map_of query_params ''path'' of
        None \<Rightarrow> Inr PNone
      | Some [] \<Rightarrow> Inl (Exn IndexError ''list index out of range'')
      | Some (v # _) \<Rightarrow> Inr (PStr (from_utf8 v)))"

definition not_found_get_text :: string where
  "not_found_get_text = ''Not Found. Please use the /extract endpoint.''"

text \<open>\<open>do_GET\<close> has no \<open>try\<close>: whatever is raised escapes it.\<close>

definition do_GET :: "world \<Rightarrow> request \<Rightarrow> handler \<Rightarrow> exn option \<times> handler" where
  "do_GET w req h =
     (case urlparse w (path req) of
        Inl e \<Rightarrow> (Some e, h)
      | Inr parsed_path \<Rightarrow>
          (let query_params = parse_qs w (url_query parsed_path)
           in if url_path parsed_path = ''/extract''
              then (case query_target query_params of
                      Inl e \<Rightarrow> (Some e, h)
                    | Inr target_path \<Rightarrow> process_request w target_path h)
              else (None, reply 404 not_found_get_text h)))"

subsection \<open>do_POST\<close>

text \<open>
  Well-formed UTF-8, byte by byte (the table of the Unicode standard, which the strict
  decoder of Python follows: no overlong forms, no surrogates, nothing above U+10FFFF).
\<close>

definition byte_in :: "nat \<Rightarrow> nat \<Rightarrow> char \<Rightarrow> bool" where
  "byte_in lo hi c = (lo \<le> of_char c \<and> of_char c \<le> hi)"

fun utf8_wf :: "string \<Rightarrow> bool" where
  "utf8_wf [] = True"
| "utf8_wf (a # bs) =
     (if byte_in 0x00 0x7F a then utf8_wf bs
      else if byte_in 0xC2 0xDF a then
        (case bs of
           b # r \<Rightarrow> byte_in 0x80 0xBF b \<and> utf8_wf r
         | _ \<Rightarrow> False)
      else if byte_in 0xE0 0xEF a then
        (case bs of
           b # c # r \<Rightarrow>
             byte_in (if byte_in 0xE0 0xE0 a then 0xA0 else 0x80)
                    (if byte_in 0xED 0xED a then 0x9F else 0xBF) b
             \<and> byte_in 0x80 0xBF c \<and> utf8_wf r
         | _ \<Rightarrow> False)
      else if byte_in 0xF0 0xF4 a then
        (case bs of
           b # c # d # r \<Rightarrow>
             byte_in (if byte_in 0xF0 0xF0 a then 0x90 else 0x80)
                    (if byte_in 0xF4 0xF4 a then 0x8F else 0xBF) b
             \<and> byte_in 0x80 0xBF c \<and> byte_in 0x80 0xBF d \<and> utf8_wf r
         | _ \<Rightarrow> False)
      else False)"

text \<open>\<open>body.decode('utf-8')\<close>: the result holds no lone surrogate.\<close>

definition decode_utf8 :: "world \<Rightarrow> string \<Rightarrow> exn + string" where
  "decode_utf8 w body =
     (if utf8_wf body then Inr body
      else Inl (Exn UnicodeDecodeError
                  (describe w UnicodeDecodeError (PStr (from_utf8 body)))))"

text \<open>
  \<open>int(self.headers['Content-Length'])\<close>: the lookup gives \<open>None\<close> for an absent header,
  and \<open>int(None)\<close> raises \<open>TypeError\<close>.
\<close>

definition int_of_header :: "world \<Rightarrow> string option \<Rightarrow> exn + int" where
  "int_of_header w v =
     (case v of
        None \<Rightarrow> Inl (Exn TypeError (describe w TypeError PNone))
      | Some s \<Rightarrow> int_of_str w s)"

text \<open>\<open>data.get('path')\<close>: only a \<open>dict\<close> has the method.\<close>

definition data_get :: "world \<Rightarrow> pyval \<Rightarrow> string \<Rightarrow> exn + pyval" where
  "data_get w data k =
     (case data of
        PDict kvs \<Rightarrow> Inr (case map_of kvs k of None \<Rightarrow> PNone | Some v \<Rightarrow> v)
      | _ \<Rightarrow> Inl (Exn AttributeError (describe w AttributeError data)))"

text \<open>
  The statements of the \<open>try\<close> block before the call of \<open>process_request\<close>: they write
  nothing, and give the target path or the exception that ended them.
\<close>

definition post_target :: "world \<Rightarrow> request \<Rightarrow> exn + pyval" where
  "post_target w req =
     (case int_of_header w (headers req ''Content-Length'') of
        Inl e \<Rightarrow> Inl e
      | Inr content_length \<Rightarrow>
          (case rfile_read req content_length of
             Inl e \<Rightarrow> Inl e
           | Inr body \<Rightarrow>
               (case decode_utf8 w body of
                  Inl e \<Rightarrow> Inl e
                | Inr body_str \<Rightarrow>
                    (case json_loads w body_str of
                       Inl e \<Rightarrow> Inl e
                     | Inr data \<Rightarrow> data_get w data ''path''))))"

definition invalid_json_text :: string where
  "invalid_json_text = ''Error: Invalid JSON in request body.''"

definition unexpected_post_text :: "exn \<Rightarrow> pystr" where
  "unexpected_post_text e =
     from_utf8 (''An unexpected server error occurred while processing POST request: ''
             @ msg e)"

definition not_found_post_text :: string where
  "not_found_post_text =
     ''Not Found. Please use the /extract endpoint for POST requests.''"

text \<open>
  The two \<open>except\<close> clauses of \<open>do_POST\<close>, in their order: \<open>json.JSONDecodeError\<close>
  first, then \<open>Exception\<close>.
\<close>

definition post_except :: "world \<Rightarrow> exn \<Rightarrow> handler \<Rightarrow> exn option \<times> handler" where
  "post_except w e h =
     (if cls e = JSONDecodeError then (None, reply 400 invalid_json_text h)
      else reply_text w 500 (unexpected_post_text e) h)"

definition do_POST :: "world \<Rightarrow> request \<Rightarrow> handler \<Rightarrow> exn option \<times> handler" where
  "do_POST w req h =
     (case urlparse w (path req) of
        Inl e \<Rightarrow> (Some e, h)
      | Inr parsed_path \<Rightarrow>
          if url_path parsed_path = ''/extract''
          then (case post_target w req of
                  Inl e \<Rightarrow> post_except w e h
                | Inr target_path \<Rightarrow>
                    (case process_request w target_path h of
                       (Some e, h1) \<Rightarrow> post_except w e h1
                     | (None, h1) \<Rightarrow> (None, h1)))
          else (None, reply 404 not_found_post_text h))"

subsection \<open>Dispatch and start-up\<close>

text \<open>The base class calls \<open>do_GET\<close> for a GET request and \<open>do_POST\<close> for a POST request.\<close>

datatype http_method = GET | POST

definition handle :: "world \<Rightarrow> http_method \<Rightarrow> request \<Rightarrow> handler \<Rightarrow> exn option \<times> handler" where
  "handle w m req h = (case m of GET \<Rightarrow> do_GET w req h | POST \<Rightarrow> do_POST w req h)"

text \<open>
  The target path a request routed to \<open>/extract\<close> hands to \<open>process_request\<close>:
  \<open>None\<close> when the request is not routed there, \<open>Some (Inl e)\<close> when reading the target
  path raised \<open>e\<close>, \<open>Some (Inr v)\<close> when \<open>process_request\<close> is called with \<open>v\<close>.
\<close>

definition extracted :: "world \<Rightarrow> http_method \<Rightarrow> request \<Rightarrow> (exn + pyval) option" where
  "extracted w m req =
     (case urlparse w (path req) of
        Inl e \<Rightarrow> None
      | Inr parsed_path \<Rightarrow>
          if url_path parsed_path = ''/extract''
          then Some (case m of
                       GET \<Rightarrow> query_target (parse_qs w (url_query parsed_path))
                     | POST \<Rightarrow> post_target w req)
          else None)"

text \<open>
  \<open>run_server\<close> up to the construction of the listener: the value of \<open>port\<close>, that is
  \<open>int(os.environ.get('LISTEN_PORT', 8080))\<close>, or the exception \<open>int\<close> raised. The
  default is the integer 8080, which \<open>int\<close> returns as it is.
\<close>

definition run_server :: "world \<Rightarrow> exn + int" where
  "run_server w =
     (case environ w ''LISTEN_PORT'' of
        None \<Rightarrow> Inr 8080
      | Some s \<Rightarrow> int_of_str w s)"

subsection \<open>A sample world and sample requests\<close>

text \<open>
  A small world on which the handlers can be evaluated. Its library functions answer as
  the Python ones do on the inputs used below: \<open>int\<close> reads unsigned decimal numerals,
  \<open>urlparse\<close> splits a target at its first question mark, \<open>parse_qs\<close> reads a query of
  one \<open>key=value\<close> pair, \<open>json.loads\<close> knows six documents. The file system holds four
  media files, two of them with a name that is not UTF-8 (the byte \<open>0xFF\<close> or \<open>0xFE\<close>,
  which Python shows as the lone surrogate U+DCFF or U+DCFE); the script succeeds on
  \<open>movie.mkv\<close> and on the first of these and fails on the other two.
\<close>

definition lone_ff_path :: pystr where
  "lone_ff_path = from_utf8 ''/data/'' @ [Lone 0xDCFF] @ from_utf8 ''.mkv''"

definition lone_fe_path :: pystr where
  "lone_fe_path = from_utf8 ''/data/'' @ [Lone 0xDCFE] @ from_utf8 ''.mkv''"

definition lone_d800_path :: pystr where
  "lone_d800_path = from_utf8 ''/nonexistent/'' @ [Lone 0xD800] @ from_utf8 ''.mkv''"

text \<open>
  Three JSON documents whose \<open>path\<close> holds a \<open>u\<close>-escape (a backslash, \<open>u\<close>, four
  hexadecimal digits) of the surrogate U+DCFF, U+DCFE and U+D800: plain ASCII bytes.
\<close>

definition lone_ff_body :: string where
  \<open>lone_ff_body = ''{"path": "/data/'' @ [CHR 0x5C] @ ''udcff.mkv"}''\<close>

definition lone_fe_body :: string where
  \<open>lone_fe_body = ''{"path": "/data/'' @ [CHR 0x5C] @ ''udcfe.mkv"}''\<close>

definition lone_d800_body :: string where
  \<open>lone_d800_body = ''{"path": "/nonexistent/'' @ [CHR 0x5C] @ ''ud800.mkv"}''\<close>

definition sample_int :: "string \<Rightarrow> exn + int" where
  "sample_int s =
     (if s \<noteq> [] \<and> list_all (byte_in 0x30 0x39) s
      then Inr (int (foldl (\<lambda>n c. 10 * n + (of_char c - 0x30)) 0 s))
      else Inl (Exn ValueError
                  (''invalid literal for int() with base 10: '' @ [CHR 0x27] @ s
                     @ [CHR 0x27])))"

definition sample_urlparse :: "string \<Rightarrow> exn + parse_result" where
  "sample_urlparse t =
     Inr \<lparr>url_path = takeWhile (\<lambda>c. c \<noteq> CHR ''?'') t,
          url_query = drop 1 (dropWhile (\<lambda>c. c \<noteq> CHR ''?'') t)\<rparr>"

definition sample_parse_qs :: "string \<Rightarrow> (string \<times> string list) list" where
  "sample_parse_qs q =
     (let k = takeWhile (\<lambda>c. c \<noteq> CHR ''='') q;
          v = drop 1 (dropWhile (\<lambda>c. c \<noteq> CHR ''='') q)
      in if v = [] then [] else [(k, [v])])"

definition sample_json_loads :: "string \<Rightarrow> exn + pyval" where
  \<open>sample_json_loads s =
     (if s = ''{"path": "/data/movie.mkv"}''
      then Inr (PDict [(''path'', PStr (from_utf8 ''/data/movie.mkv''))])
      else if s = lone_ff_body then Inr (PDict [(''path'', PStr lone_ff_path)])
      else if s = lone_fe_body then Inr (PDict [(''path'', PStr lone_fe_path)])
      else if s = lone_d800_body then Inr (PDict [(''path'', PStr lone_d800_path)])
      else if s = ''{}'' then Inr (PDict [])
      else if s = ''[]'' then Inr (PList [])
      else Inl (Exn JSONDecodeError ''Expecting value: line 1 column 1 (char 0)''))\<close>

definition sample_run :: "pyval list \<Rightarrow> exn + completed_process" where
  "sample_run args =
     (if args = [PStr (from_utf8 ''/scripts/extractor.sh''), PStr (from_utf8 ''/data/movie.mkv'')]
        \<or> args = [PStr (from_utf8 ''/scripts/extractor.sh''), PStr lone_ff_path]
      then Inr \<lparr>returncode = 0, stdout = ''done'', stderr = []\<rparr>
      else if args = [PStr (from_utf8 ''/scripts/extractor.sh''), PStr (from_utf8 ''/data/broken.mkv'')]
        \<or> args = [PStr (from_utf8 ''/scripts/extractor.sh''), PStr lone_fe_path]
      then Inr \<lparr>returncode = 1, stdout = ''partial'', stderr = ''no subtitle track''\<rparr>
      else Inl (Exn OSError ''[Errno 2] No such file or directory''))"

definition sample_world :: world where
  "sample_world =
     \<lparr>environ = Map.empty,
      int_of_str = sample_int,
      urlparse = sample_urlparse,
      parse_qs = sample_parse_qs,
      json_loads = sample_json_loads,
      stat_ok = (\<lambda>p. p = from_utf8 ''/data/movie.mkv'' \<or> p = from_utf8 ''/data/broken.mkv''
                    \<or> p = lone_ff_path \<or> p = lone_fe_path),
      exists_other = (\<lambda>v. Inl (Exn TypeError ''stat: path should be string'')),
      subprocess_run = sample_run,
      py_str = (\<lambda>v. ''None''),
      describe = (\<lambda>c v. ''detail'')\<rparr>"

text \<open>The sample world with \<open>LISTEN_PORT\<close> set.\<close>

definition world_with_port :: "string \<Rightarrow> world" where
  "world_with_port s = sample_world\<lparr>environ := [''LISTEN_PORT'' \<mapsto> s]\<rparr>"

text \<open>A GET request for a target, and a POST request with a body and a Content-Length.\<close>

definition get_request :: "string \<Rightarrow> request" where
  "get_request t = \<lparr>path = t, headers = Map.empty, rfile_read = (\<lambda>n. Inr [])\<rparr>"

definition post_request :: "string \<Rightarrow> string \<Rightarrow> string \<Rightarrow> request" where
  "post_request t len bytes =
     \<lparr>path = t, headers = [''Content-Length'' \<mapsto> len],
      rfile_read = (\<lambda>n. Inr (if n < 0 then bytes else take (nat n) bytes))\<rparr>"

definition post_without_length :: "string \<Rightarrow> request" where
  "post_without_length t = \<lparr>path = t, headers = Map.empty, rfile_read = (\<lambda>n. Inr [])\<rparr>"

section \<open>Properties\<close>

subsection \<open>Replies and the shared routine\<close>

lemma wfile_send_head: "wfile (send_head code h) = wfile h @ head code"
  by (simp add: send_head_def head_def end_headers_def send_header_def send_response_def)

lemma calls_send_head: "calls (send_head code h) = calls h"
  by (simp add: send_head_def end_headers_def send_header_def send_response_def)

lemma wfile_reply: "wfile (reply code body h) = wfile h @ plain code body"
  by (simp add: reply_def plain_def wfile_write_def wfile_send_head)

lemma calls_reply: "calls (reply code body h) = calls h"
  by (simp add: reply_def wfile_write_def calls_send_head)

text \<open>A \<open>str\<close> without lone surrogates encodes, to the bytes that represent it.\<close>

lemma bytes_of_from_utf8: "bytes_of (from_utf8 s) = Some s"
  by (induction s) (simp_all add: from_utf8_def)

lemma from_utf8_eq_Nil [simp]: "(from_utf8 s = []) = (s = [])"
  by (simp add: from_utf8_def)

lemma from_utf8_inject [simp]: "(from_utf8 a = from_utf8 b) = (a = b)"
  by (simp add: from_utf8_def inj_map_eq_map inj_on_def)

lemma from_utf8_append: "from_utf8 a @ from_utf8 b = from_utf8 (a @ b)"
  by (simp add: from_utf8_def)

lemma reply_text_from_utf8: "reply_text w code (from_utf8 s) h = (None, reply code s h)"
  by (simp add: reply_text_def encode_utf8_def bytes_of_from_utf8 reply_def)

text \<open>A \<open>str\<close> with a lone surrogate does not: the head is sent and the encoding raises.\<close>

lemma bytes_of_lone: "bytes_of (a @ Lone n # r) = None"
  by (induction a rule: bytes_of.induct) simp_all

lemma from_utf8_not_lone [simp]:
  "from_utf8 s \<noteq> a @ Lone n # r" "a @ Lone n # r \<noteq> from_utf8 s"
proof -
  have "bytes_of (from_utf8 s) \<noteq> bytes_of (a @ Lone n # r)"
    by (simp add: bytes_of_from_utf8 bytes_of_lone)
  then show "from_utf8 s \<noteq> a @ Lone n # r" and "a @ Lone n # r \<noteq> from_utf8 s"
    by auto
qed


text \<open>The sample paths and documents with a lone surrogate, for evaluation.\<close>

lemmas sample_defs =
  lone_ff_path_def lone_fe_path_def lone_d800_path_def
  lone_ff_body_def lone_fe_body_def lone_d800_body_def

lemma process_request_falsy:
  "\<not> truthy v \<Longrightarrow> process_request w v h = (None, reply 400 required_text h)"
  by (simp add: process_request_def)

lemma process_request_absent:
  "p \<noteq> [] \<Longrightarrow> os_path_exists w (PStr (from_utf8 p)) = Inr False \<Longrightarrow>
   process_request w (PStr (from_utf8 p)) h =
     (None,
      reply 400
        (''Error: The specified path does not exist inside the container: ''
           @ [CHR 0x27] @ p @ [CHR 0x27]) h)"
  by (simp add: process_request_def fmt_def missing_text_def from_utf8_append
      reply_text_from_utf8)

lemma exists_nonempty: "os_path_exists w (PStr p) = Inr True \<Longrightarrow> p \<noteq> []"
  by (auto simp: os_path_exists_def)

lemma process_request_run:
  assumes "os_path_exists w (PStr (from_utf8 p)) = Inr True"
  shows "process_request w (PStr (from_utf8 p)) h =
    (None,
     (case subprocess_run w [PStr (from_utf8 EXTRACT_SCRIPT_PATH), PStr (from_utf8 p)] of
        Inl e \<Rightarrow> reply 500 (''An unexpected server error occurred: '' @ msg e)
      | Inr r \<Rightarrow>
          if returncode r = 0
          then reply 200
                 (''Successfully processed '' @ [CHR 0x27] @ p @ [CHR 0x27]
                    @ ''.\<newline>\<newline>--- SCRIPT OUTPUT ---\<newline>'' @ stdout r)
          else reply 500
                 (''Script failed to process '' @ [CHR 0x27] @ p @ [CHR 0x27]
                    @ ''.\<newline>\<newline>--- SCRIPT ERROR ---\<newline>'' @ stderr r
                    @ ''\<newline>\<newline>--- SCRIPT OUTPUT ---\<newline>'' @ stdout r))
       (h\<lparr>calls := calls h @ [[PStr (from_utf8 EXTRACT_SCRIPT_PATH), PStr (from_utf8 p)]]\<rparr>))"
  using assms exists_nonempty [OF assms]
  by (simp add: process_request_def fmt_def Let_def success_text_def failure_text_def
      unexpected_text_def from_utf8_append reply_text_from_utf8 split: sum.splits)

text \<open>
  On \<open>None\<close> and on a \<open>str\<close> without lone surrogates the shared routine returns
  normally.
\<close>

lemma str_never_raises: "fst (process_request w (PStr (from_utf8 p)) h) = None"
proof (cases "os_path_exists w (PStr (from_utf8 p))")
  case (Inl e)
  then show ?thesis by (simp add: os_path_exists_def)
next
  case (Inr b)
  show ?thesis
  proof (cases b)
    case True
    with Inr show ?thesis
      by (simp add: process_request_run split: sum.splits)
  next
    case False
    with Inr show ?thesis
      by (cases "p = []") (simp_all add: process_request_absent process_request_falsy)
  qed
qed

lemma none_never_raises: "fst (process_request w PNone h) = None"
  by (simp add: process_request_def)

text \<open>
  A request that hands \<open>v\<close> to the shared routine is answered by the shared routine,
  whichever method carried it, provided the routine returns normally.
\<close>

lemma handle_extracted:
  assumes "extracted w m req = Some (Inr v)" and "fst (process_request w v h) = None"
  shows "handle w m req h = process_request w v h"
proof (cases m)
  case GET
  with assms show ?thesis
    by (auto simp: handle_def extracted_def do_GET_def Let_def split: sum.splits if_splits)
next
  case POST
  with assms show ?thesis
    by (cases "process_request w v h")
      (auto simp: handle_def extracted_def do_POST_def split: sum.splits if_splits)
qed


lemma get_target_cases:
  "extracted w GET req = Some (Inr v) \<Longrightarrow> v = PNone \<or> (\<exists>p. v = PStr (from_utf8 p))"
  by (auto simp: extracted_def query_target_def
      split: sum.splits if_splits option.splits list.splits)

subsection \<open>The script succeeded\<close>




subsection \<open>The script failed\<close>




subsection \<open>No target path\<close>

text \<open>
  C3. A request routed to \<open>/extract\<close>, by GET or by POST, that hands the shared routine
  \<open>None\<close> (the path is missing) or the empty string: the handler returns normally, what
  it wrote is one reply of status 400 whose body says that the \<open>path\<close> parameter is
  required, and \<open>subprocess.run\<close> was not called.
\<close>

theorem missing_path_400:
  assumes "extracted w m req = Some (Inr v)"
    and "v = PNone \<or> v = PStr []"
  shows "fst (handle w m req h) = None
    \<and> wfile (snd (handle w m req h)) =
        wfile h @ plain 400
          ''Error: 'path' parameter is required in the URL query or JSON body.''
    \<and> calls (snd (handle w m req h)) = calls h"
proof -
  from assms(2) have falsy: "\<not> truthy v" by auto
  then have pr: "process_request w v h = (None, reply 400 required_text h)"
    by (rule process_request_falsy)
  then have "handle w m req h = process_request w v h"
    using handle_extracted [OF assms(1), of h] by simp
  with pr show ?thesis
    by (simp add: wfile_reply calls_reply required_text_def)
qed

text \<open>The theorem at \<open>GET /extract\<close>, which has no query.\<close>

theorem missing_path_400_witness:
  "extracted sample_world GET (get_request ''/extract'') = Some (Inr PNone)
   \<and> fst (handle sample_world GET (get_request ''/extract'') fresh) = None
   \<and> wfile (snd (handle sample_world GET (get_request ''/extract'') fresh)) =
       plain 400 ''Error: 'path' parameter is required in the URL query or JSON body.''
   \<and> calls (snd (handle sample_world GET (get_request ''/extract'') fresh)) = []"
proof -
  have a: "extracted sample_world GET (get_request ''/extract'') = Some (Inr PNone)"
    by (simp add: extracted_def sample_world_def sample_defs get_request_def sample_urlparse_def
        sample_parse_qs_def query_target_def)
  have b: "PNone = PNone \<or> PNone = PStr []" by simp
  show ?thesis
    using a missing_path_400 [OF a b, of fresh]
    by (simp add: fresh_def)
qed

subsection \<open>A target path that does not exist\<close>




subsection \<open>A POST body that is not JSON\<close>

text \<open>
  An exception raised in the \<open>try\<close> block of \<open>do_POST\<close> before \<open>process_request\<close> is
  called goes to the \<open>except\<close> clauses.
\<close>

lemma post_target_raises:
  assumes "urlparse w (path req) = Inr u" and "url_path u = ''/extract''"
    and "post_target w req = Inl e"
  shows "do_POST w req h = post_except w e h"
  using assms by (simp add: do_POST_def)

text \<open>
  C5, as amended. A POST request to \<open>/extract\<close> whose body, read as exactly
  Content-Length bytes, decodes as UTF-8 and is then rejected by \<open>json.loads\<close> with a
  \<open>JSONDecodeError\<close>: the handler returns normally, what it wrote is one reply of
  status 400 whose body says that the JSON is invalid, and \<open>subprocess.run\<close> was not
  called. The claim as written also covers bodies that are not UTF-8 at all; those
  are answered with 500 (see the counterexample below).
\<close>

theorem invalid_json_400:
  assumes "urlparse w (path req) = Inr u" and "url_path u = ''/extract''"
    and "headers req ''Content-Length'' = Some s" and "int_of_str w s = Inr n"
    and "rfile_read req n = Inr body" and "utf8_wf body"
    and "json_loads w body = Inl e" and "cls e = JSONDecodeError"
  shows "fst (do_POST w req h) = None
    \<and> wfile (snd (do_POST w req h)) =
        wfile h @ plain 400 ''Error: Invalid JSON in request body.''
    \<and> calls (snd (do_POST w req h)) = calls h"
proof -
  have "post_target w req = Inl e"
    using assms(3-7) by (simp add: post_target_def int_of_header_def decode_utf8_def)
  then have "do_POST w req h = post_except w e h"
    using assms(1,2) by (simp add: post_target_raises)
  then show ?thesis
    using assms(8)
    by (simp add: post_except_def wfile_reply calls_reply invalid_json_text_def)
qed

text \<open>
  The theorem at \<open>POST /extract\<close> with the eight bytes \<open>not json\<close> in the sample world.
\<close>

theorem invalid_json_400_witness:
  "urlparse sample_world (path (post_request ''/extract'' ''8'' ''not json''))
     = Inr \<lparr>url_path = ''/extract'', url_query = []\<rparr>
   \<and> headers (post_request ''/extract'' ''8'' ''not json'') ''Content-Length'' = Some ''8''
   \<and> int_of_str sample_world ''8'' = Inr 8
   \<and> rfile_read (post_request ''/extract'' ''8'' ''not json'') 8 = Inr ''not json''
   \<and> utf8_wf ''not json''
   \<and> json_loads sample_world ''not json''
     = Inl (Exn JSONDecodeError ''Expecting value: line 1 column 1 (char 0)'')
   \<and> fst (do_POST sample_world (post_request ''/extract'' ''8'' ''not json'') fresh) = None
   \<and> wfile (snd (do_POST sample_world (post_request ''/extract'' ''8'' ''not json'') fresh))
     = plain 400 ''Error: Invalid JSON in request body.''
   \<and> calls (snd (do_POST sample_world (post_request ''/extract'' ''8'' ''not json'') fresh))
     = []"
proof -
  let ?req = "post_request ''/extract'' ''8'' ''not json''"
  let ?u = "\<lparr>url_path = ''/extract'', url_query = []\<rparr>"
  let ?e = "Exn JSONDecodeError ''Expecting value: line 1 column 1 (char 0)''"
  have a: "urlparse sample_world (path ?req) = Inr ?u"
    by (simp add: sample_world_def sample_defs post_request_def sample_urlparse_def)
  have b: "url_path ?u = ''/extract''" by simp
  have c: "headers ?req ''Content-Length'' = Some ''8''"
    by (simp add: post_request_def)
  have d: "int_of_str sample_world ''8'' = Inr 8"
    by (simp add: sample_world_def sample_defs sample_int_def byte_in_def)
  have e: "rfile_read ?req 8 = Inr ''not json''"
    by (simp add: post_request_def)
  have f: "utf8_wf ''not json''"
    by (simp add: byte_in_def)
  have g: "json_loads sample_world ''not json'' = Inl ?e"
    by (simp add: sample_world_def sample_defs sample_json_loads_def)
  have i: "cls ?e = JSONDecodeError" by simp
  show ?thesis
    using a c d e f g invalid_json_400 [OF a b c d e f g i, of fresh]
    by (simp add: fresh_def)
qed

text \<open>
  The claim as written fails at \<open>POST /extract\<close> with Content-Length 1 and the single
  byte \<open>0xFF\<close>. The body is not well-formed UTF-8, hence not JSON, yet
  \<open>body.decode('utf-8')\<close> raises before \<open>json.loads\<close> is reached, the exception is not
  a \<open>JSONDecodeError\<close>, and the reply is the 500 of the \<open>except Exception\<close> clause.
\<close>

theorem invalid_utf8_body_counterexample:
  "urlparse sample_world (path (post_request ''/extract'' ''1'' [CHR 0xFF]))
     = Inr \<lparr>url_path = ''/extract'', url_query = []\<rparr>
   \<and> headers (post_request ''/extract'' ''1'' [CHR 0xFF]) ''Content-Length'' = Some ''1''
   \<and> int_of_str sample_world ''1'' = Inr 1
   \<and> rfile_read (post_request ''/extract'' ''1'' [CHR 0xFF]) 1 = Inr [CHR 0xFF]
   \<and> \<not> utf8_wf [CHR 0xFF]
   \<and> wfile (snd (do_POST sample_world (post_request ''/extract'' ''1'' [CHR 0xFF]) fresh))
     = plain 500
         ''An unexpected server error occurred while processing POST request: detail''
   \<and> wfile (snd (do_POST sample_world (post_request ''/extract'' ''1'' [CHR 0xFF]) fresh))
     \<noteq> plain 400 ''Error: Invalid JSON in request body.''"
  by (simp add: sample_world_def sample_defs post_request_def sample_urlparse_def sample_int_def
      byte_in_def do_POST_def post_target_def int_of_header_def decode_utf8_def
      post_except_def reply_text_from_utf8 wfile_reply unexpected_post_text_def fresh_def
      plain_def head_def)

subsection \<open>One invocation per GET request\<close>

text \<open>
  C6. A GET request to \<open>/extract\<close> whose \<open>path\<close> query parameter (its first value \<open>p\<close>)
  names an existing location: the handler calls \<open>subprocess.run\<close> exactly once, with
  the argument vector of the fixed executable \<open>/scripts/extractor.sh\<close> followed by \<open>p\<close>
  and nothing else, and the reply is built from what that one call gave back: from the
  exit code, all of the captured standard output and, on failure, all of the captured
  standard error; or from the exception, if the call raised. The call is synchronous in
  the model as in the source: \<open>subprocess_run\<close> is a function whose result is there
  before the reply is written.
\<close>

theorem get_runs_script_once:
  assumes "urlparse w (path req) = Inr u" and "url_path u = ''/extract''"
    and "map_of (parse_qs w (url_query u)) ''path'' = Some (p # ps)"
    and "os_path_exists w (PStr (from_utf8 p)) = Inr True"
  shows "fst (do_GET w req h) = None
    \<and> calls (snd (do_GET w req h)) =
        calls h @ [[PStr (from_utf8 ''/scripts/extractor.sh''), PStr (from_utf8 p)]]
    \<and> wfile (snd (do_GET w req h)) =
        wfile h @
          (case subprocess_run w
                  [PStr (from_utf8 ''/scripts/extractor.sh''), PStr (from_utf8 p)] of
             Inl e \<Rightarrow> plain 500 (''An unexpected server error occurred: '' @ msg e)
           | Inr r \<Rightarrow>
               if returncode r = 0
               then plain 200
                      (''Successfully processed '' @ [CHR 0x27] @ p @ [CHR 0x27]
                         @ ''.\<newline>\<newline>--- SCRIPT OUTPUT ---\<newline>'' @ stdout r)
               else plain 500
                      (''Script failed to process '' @ [CHR 0x27] @ p @ [CHR 0x27]
                         @ ''.\<newline>\<newline>--- SCRIPT ERROR ---\<newline>'' @ stderr r
                         @ ''\<newline>\<newline>--- SCRIPT OUTPUT ---\<newline>'' @ stdout r))"
proof -
  have "do_GET w req h = process_request w (PStr (from_utf8 p)) h"
    using assms(1-3) by (simp add: do_GET_def query_target_def)
  then show ?thesis
    by (simp add: process_request_run [OF assms(4)] EXTRACT_SCRIPT_PATH_def wfile_reply
        calls_reply split: sum.splits)
qed

text \<open>The theorem at \<open>GET /extract?path=/data/movie.mkv\<close> in the sample world.\<close>

theorem get_runs_script_once_witness:
  "urlparse sample_world (path (get_request ''/extract?path=/data/movie.mkv''))
     = Inr \<lparr>url_path = ''/extract'', url_query = ''path=/data/movie.mkv''\<rparr>
   \<and> map_of (parse_qs sample_world ''path=/data/movie.mkv'') ''path''
     = Some [''/data/movie.mkv'']
   \<and> os_path_exists sample_world (PStr (from_utf8 ''/data/movie.mkv'')) = Inr True
   \<and> fst (do_GET sample_world (get_request ''/extract?path=/data/movie.mkv'') fresh) = None
   \<and> calls (snd (do_GET sample_world (get_request ''/extract?path=/data/movie.mkv'') fresh))
     = [[PStr (from_utf8 ''/scripts/extractor.sh''), PStr (from_utf8 ''/data/movie.mkv'')]]
   \<and> wfile (snd (do_GET sample_world (get_request ''/extract?path=/data/movie.mkv'') fresh))
     = plain 200
         ''Successfully processed '/data/movie.mkv'.\<newline>\<newline>--- SCRIPT OUTPUT ---\<newline>done''"
proof -
  let ?req = "get_request ''/extract?path=/data/movie.mkv''"
  let ?u = "\<lparr>url_path = ''/extract'', url_query = ''path=/data/movie.mkv''\<rparr>"
  have a: "urlparse sample_world (path ?req) = Inr ?u"
    by (simp add: sample_world_def sample_defs get_request_def sample_urlparse_def)
  have b: "url_path ?u = ''/extract''" by simp
  have c: "map_of (parse_qs sample_world (url_query ?u)) ''path'' = Some (''/data/movie.mkv'' # [])"
    by (simp add: sample_world_def sample_defs sample_parse_qs_def)
  have d: "os_path_exists sample_world (PStr (from_utf8 ''/data/movie.mkv'')) = Inr True"
    by (simp add: os_path_exists_def sample_world_def sample_defs)
  have e: "subprocess_run sample_world [PStr (from_utf8 ''/scripts/extractor.sh''), PStr (from_utf8 ''/data/movie.mkv'')]
      = Inr \<lparr>returncode = 0, stdout = ''done'', stderr = []\<rparr>"
    by (simp add: sample_world_def sample_defs sample_run_def)
  show ?thesis
    using a c d e get_runs_script_once [OF a b c d, of fresh]
    by (simp add: fresh_def)
qed

subsection \<open>Any other route\<close>

text \<open>
  C7. A request, GET or POST, whose target parses to a path other than \<open>/extract\<close>: the
  handler returns normally, what it wrote is one reply of status 404 and content type
  \<open>text/plain\<close> whose body points to the \<open>/extract\<close> endpoint, and \<open>subprocess.run\<close> was
  not called.
\<close>

theorem other_path_404:
  assumes "urlparse w (path req) = Inr u" and "url_path u \<noteq> ''/extract''"
  shows "fst (handle w m req h) = None
    \<and> wfile (snd (handle w m req h)) =
        wfile h @ plain 404
          (case m of
             GET \<Rightarrow> ''Not Found. Please use the /extract endpoint.''
           | POST \<Rightarrow> ''Not Found. Please use the /extract endpoint for POST requests.'')
    \<and> calls (snd (handle w m req h)) = calls h"
  using assms
  by (cases m)
    (simp_all add: handle_def do_GET_def do_POST_def wfile_reply calls_reply
      not_found_get_text_def not_found_post_text_def)

text \<open>The theorem at \<open>GET /other\<close> and at \<open>POST /other\<close>.\<close>

theorem other_path_404_witness:
  "urlparse sample_world (path (get_request ''/other''))
     = Inr \<lparr>url_path = ''/other'', url_query = []\<rparr>
   \<and> ''/other'' \<noteq> ''/extract''
   \<and> wfile (snd (handle sample_world GET (get_request ''/other'') fresh))
     = plain 404 ''Not Found. Please use the /extract endpoint.''
   \<and> wfile (snd (handle sample_world POST (get_request ''/other'') fresh))
     = plain 404 ''Not Found. Please use the /extract endpoint for POST requests.''
   \<and> calls (snd (handle sample_world GET (get_request ''/other'') fresh)) = []
   \<and> calls (snd (handle sample_world POST (get_request ''/other'') fresh)) = []"
proof -
  let ?u = "\<lparr>url_path = ''/other'', url_query = []\<rparr>"
  have a: "urlparse sample_world (path (get_request ''/other'')) = Inr ?u"
    by (simp add: sample_world_def sample_defs get_request_def sample_urlparse_def)
  have b: "url_path ?u \<noteq> ''/extract''" by simp
  show ?thesis
    using a other_path_404 [OF a b, of GET fresh] other_path_404 [OF a b, of POST fresh]
    by (simp add: fresh_def)
qed

subsection \<open>A POST body that cannot be read\<close>

text \<open>
  C10. A POST request to \<open>/extract\<close> that has no Content-Length header, or whose body
  (read as Content-Length bytes) is not well-formed UTF-8: the exception is raised
  before \<open>json.loads\<close> is reached and is not a \<open>JSONDecodeError\<close>, so the reply is the
  500 of the catch-all clause with the description of the unexpected error, not the 400
  for invalid JSON, and \<open>subprocess.run\<close> was not called.
\<close>

theorem post_unreadable_body_500:
  assumes "urlparse w (path req) = Inr u" and "url_path u = ''/extract''"
    and "headers req ''Content-Length'' = None
       \<or> (headers req ''Content-Length'' = Some s \<and> int_of_str w s = Inr n
           \<and> rfile_read req n = Inr body \<and> \<not> utf8_wf body)"
  shows "fst (do_POST w req h) = None
    \<and> wfile (snd (do_POST w req h)) =
        wfile h @ plain 500
          (''An unexpected server error occurred while processing POST request: ''
             @ (if headers req ''Content-Length'' = None then describe w TypeError PNone
                else describe w UnicodeDecodeError (PStr (from_utf8 body))))
    \<and> wfile (snd (do_POST w req h)) \<noteq>
        wfile h @ plain 400 ''Error: Invalid JSON in request body.''
    \<and> calls (snd (do_POST w req h)) = calls h"
proof -
  let ?e = "if headers req ''Content-Length'' = None
            then Exn TypeError (describe w TypeError PNone)
            else Exn UnicodeDecodeError (describe w UnicodeDecodeError (PStr (from_utf8 body)))"
  have "post_target w req = Inl ?e"
    using assms(3)
    by (auto simp: post_target_def int_of_header_def decode_utf8_def)
  then have "do_POST w req h = post_except w ?e h"
    using assms(1,2) by (simp add: post_target_raises)
  then show ?thesis
    by (simp add: post_except_def reply_text_from_utf8 wfile_reply calls_reply
        unexpected_post_text_def plain_def head_def)
qed

text \<open>
  The theorem at a POST without Content-Length, and at a POST whose body is the single
  byte \<open>0xFF\<close>.
\<close>

theorem post_unreadable_body_500_witness:
  "urlparse sample_world (path (post_without_length ''/extract''))
     = Inr \<lparr>url_path = ''/extract'', url_query = []\<rparr>
   \<and> headers (post_without_length ''/extract'') ''Content-Length'' = None
   \<and> wfile (snd (do_POST sample_world (post_without_length ''/extract'') fresh))
     = plain 500
         ''An unexpected server error occurred while processing POST request: detail''
   \<and> calls (snd (do_POST sample_world (post_without_length ''/extract'') fresh)) = []
   \<and> headers (post_request ''/extract'' ''1'' [CHR 0xFF]) ''Content-Length'' = Some ''1''
   \<and> int_of_str sample_world ''1'' = Inr 1
   \<and> rfile_read (post_request ''/extract'' ''1'' [CHR 0xFF]) 1 = Inr [CHR 0xFF]
   \<and> \<not> utf8_wf [CHR 0xFF]
   \<and> wfile (snd (do_POST sample_world (post_request ''/extract'' ''1'' [CHR 0xFF]) fresh))
     = plain 500
         ''An unexpected server error occurred while processing POST request: detail''
   \<and> calls (snd (do_POST sample_world (post_request ''/extract'' ''1'' [CHR 0xFF]) fresh))
     = []"
proof -
  let ?u = "\<lparr>url_path = ''/extract'', url_query = []\<rparr>"
  let ?r1 = "post_without_length ''/extract''"
  let ?r2 = "post_request ''/extract'' ''1'' [CHR 0xFF]"
  have a1: "urlparse sample_world (path ?r1) = Inr ?u"
    by (simp add: sample_world_def sample_defs post_without_length_def sample_urlparse_def)
  have a2: "urlparse sample_world (path ?r2) = Inr ?u"
    by (simp add: sample_world_def sample_defs post_request_def sample_urlparse_def)
  have b: "url_path ?u = ''/extract''" by simp
  have c1: "headers ?r1 ''Content-Length'' = None"
    by (simp add: post_without_length_def)
  have c2: "headers ?r2 ''Content-Length'' = Some ''1''"
    by (simp add: post_request_def)
  have d2: "int_of_str sample_world ''1'' = Inr 1"
    by (simp add: sample_world_def sample_defs sample_int_def byte_in_def)
  have e2: "rfile_read ?r2 1 = Inr [CHR 0xFF]"
    by (simp add: post_request_def)
  have f2: "\<not> utf8_wf [CHR 0xFF]"
    by (simp add: byte_in_def)
  have h1: "headers ?r1 ''Content-Length'' = None
       \<or> (headers ?r1 ''Content-Length'' = Some s \<and> int_of_str sample_world s = Inr n
           \<and> rfile_read ?r1 n = Inr body \<and> \<not> utf8_wf body)" for s n body
    using c1 by simp
  have h2: "headers ?r2 ''Content-Length'' = None
       \<or> (headers ?r2 ''Content-Length'' = Some ''1'' \<and> int_of_str sample_world ''1'' = Inr 1
           \<and> rfile_read ?r2 1 = Inr [CHR 0xFF] \<and> \<not> utf8_wf [CHR 0xFF])"
    using c2 d2 e2 f2 by simp
  have k: "describe sample_world c v = ''detail''" for c v
    by (simp add: sample_world_def sample_defs)
  show ?thesis
    using a1 c1 c2 d2 e2 f2
      post_unreadable_body_500 [OF a1 b h1, of fresh]
      post_unreadable_body_500 [OF a2 b h2, of fresh]
    by (simp add: fresh_def k)
qed

subsection \<open>GET and POST share the routine\<close>

text \<open>
  A target path read from a query is \<open>None\<close> or a \<open>str\<close>, so the shared routine returns
  normally on it.
\<close>

lemma get_never_raises:
  assumes "extracted w GET rg = Some (Inr v)"
  shows "fst (process_request w v h) = None"
  using get_target_cases [OF assms] str_never_raises none_never_raises by auto

text \<open>The target path of a POST request whose body is a JSON object.\<close>

lemma post_object_target:
  assumes "headers rp ''Content-Length'' = Some s" and "int_of_str w s = Inr n"
    and "rfile_read rp n = Inr body" and "utf8_wf body"
    and "json_loads w body = Inr (PDict kvs)"
  shows "post_target w rp = Inr (case map_of kvs ''path'' of None \<Rightarrow> PNone | Some x \<Rightarrow> x)"
  using assms by (simp add: post_target_def int_of_header_def decode_utf8_def data_get_def)

text \<open>
  C8, as amended. Whenever a GET request and a POST request to \<open>/extract\<close> hand the same
  target path to the shared routine, the two methods leave the same state: the same
  reply and the same calls. In particular a POST request whose body is a JSON
  \<^emph>\<open>object\<close> without the key \<open>path\<close> is answered exactly as a GET request without a
  \<open>path\<close> query parameter: both reach the shared routine with \<open>None\<close>, and the reply is
  the 400 saying that the parameter is required. The claim as written speaks of any
  valid JSON body without a \<open>path\<close> field; a body that is valid JSON but not an object
  never reaches the shared routine (see the counterexample below).
\<close>

theorem get_post_same_response:
  "(extracted w GET rg = Some (Inr v) \<and> extracted w POST rp = Some (Inr v)
      \<longrightarrow> handle w POST rp h = handle w GET rg h)
   \<and> (urlparse w (path rp) = Inr u \<and> url_path u = ''/extract''
      \<and> headers rp ''Content-Length'' = Some s \<and> int_of_str w s = Inr n
      \<and> rfile_read rp n = Inr body \<and> utf8_wf body
      \<and> json_loads w body = Inr (PDict kvs) \<and> map_of kvs ''path'' = None
      \<and> urlparse w (path rg) = Inr u' \<and> url_path u' = ''/extract''
      \<and> map_of (parse_qs w (url_query u')) ''path'' = None
      \<longrightarrow> handle w POST rp h = handle w GET rg h
        \<and> wfile (snd (handle w POST rp h)) =
            wfile h @ plain 400
              ''Error: 'path' parameter is required in the URL query or JSON body.''
        \<and> calls (snd (handle w POST rp h)) = calls h)"
proof (intro conjI impI)
  assume a: "extracted w GET rg = Some (Inr v) \<and> extracted w POST rp = Some (Inr v)"
  then have nr: "fst (process_request w v h) = None"
    using get_never_raises [of w rg v h] by simp
  from a nr have "handle w GET rg h = process_request w v h"
    and "handle w POST rp h = process_request w v h"
    by (simp_all add: handle_extracted)
  then show "handle w POST rp h = handle w GET rg h" by simp
next
  assume b: "urlparse w (path rp) = Inr u \<and> url_path u = ''/extract''
      \<and> headers rp ''Content-Length'' = Some s \<and> int_of_str w s = Inr n
      \<and> rfile_read rp n = Inr body \<and> utf8_wf body
      \<and> json_loads w body = Inr (PDict kvs) \<and> map_of kvs ''path'' = None
      \<and> urlparse w (path rg) = Inr u' \<and> url_path u' = ''/extract''
      \<and> map_of (parse_qs w (url_query u')) ''path'' = None"
  then have "post_target w rp = Inr PNone"
    using post_object_target [of rp s w n body kvs] by simp
  with b have p: "extracted w POST rp = Some (Inr PNone)"
    by (simp add: extracted_def)
  from b have g: "extracted w GET rg = Some (Inr PNone)"
    by (simp add: extracted_def query_target_def)
  have pr: "process_request w PNone h = (None, reply 400 required_text h)"
    by (simp add: process_request_falsy)
  from p g pr have eqs: "handle w POST rp h = process_request w PNone h"
    "handle w GET rg h = process_request w PNone h"
    by (simp_all add: handle_extracted)
  from eqs show "handle w POST rp h = handle w GET rg h" by simp
  from eqs pr show "wfile (snd (handle w POST rp h)) =
      wfile h @ plain 400
        ''Error: 'path' parameter is required in the URL query or JSON body.''"
    by (simp add: wfile_reply required_text_def)
  from eqs pr show "calls (snd (handle w POST rp h)) = calls h"
    by (simp add: calls_reply)
qed

text \<open>
  The theorem at \<open>POST /extract\<close> with the body \<open>{}\<close> and \<open>GET /extract\<close> in the sample
  world.
\<close>

theorem get_post_same_response_witness:
  "extracted sample_world GET (get_request ''/extract'') = Some (Inr PNone)
   \<and> extracted sample_world POST (post_request ''/extract'' ''2'' ''{}'') = Some (Inr PNone)
   \<and> json_loads sample_world ''{}'' = Inr (PDict [])
   \<and> handle sample_world POST (post_request ''/extract'' ''2'' ''{}'') fresh
     = handle sample_world GET (get_request ''/extract'') fresh
   \<and> wfile (snd (handle sample_world POST (post_request ''/extract'' ''2'' ''{}'') fresh))
     = plain 400 ''Error: 'path' parameter is required in the URL query or JSON body.''
   \<and> calls (snd (handle sample_world POST (post_request ''/extract'' ''2'' ''{}'') fresh))
     = []"
proof -
  let ?rp = "post_request ''/extract'' ''2'' ''{}''"
  let ?rg = "get_request ''/extract''"
  let ?u = "\<lparr>url_path = ''/extract'', url_query = []\<rparr>"
  have a: "urlparse sample_world (path ?rp) = Inr ?u"
    by (simp add: sample_world_def sample_defs post_request_def sample_urlparse_def)
  have a': "urlparse sample_world (path ?rg) = Inr ?u"
    by (simp add: sample_world_def sample_defs get_request_def sample_urlparse_def)
  have c: "headers ?rp ''Content-Length'' = Some ''2''"
    by (simp add: post_request_def)
  have d: "int_of_str sample_world ''2'' = Inr 2"
    by (simp add: sample_world_def sample_defs sample_int_def byte_in_def)
  have e: "rfile_read ?rp 2 = Inr ''{}''"
    by (simp add: post_request_def)
  have f: "utf8_wf ''{}''"
    by (simp add: byte_in_def)
  have g: "json_loads sample_world ''{}'' = Inr (PDict [])"
    by (simp add: sample_world_def sample_defs sample_json_loads_def)
  have q: "map_of (parse_qs sample_world (url_query ?u)) ''path'' = None"
    by (simp add: sample_world_def sample_defs sample_parse_qs_def)
  have b: "url_path ?u = ''/extract''" by simp
  have k: "map_of ([] :: (string \<times> pyval) list) ''path'' = None" by simp
  have xg: "extracted sample_world GET ?rg = Some (Inr PNone)"
    using a' q by (simp add: extracted_def query_target_def)
  have xp: "extracted sample_world POST ?rp = Some (Inr PNone)"
    using a c d e f g
    by (simp add: extracted_def post_target_def int_of_header_def decode_utf8_def
        data_get_def)
  have r: "handle sample_world POST ?rp fresh = handle sample_world GET ?rg fresh
      \<and> wfile (snd (handle sample_world POST ?rp fresh)) =
          wfile fresh @ plain 400
            ''Error: 'path' parameter is required in the URL query or JSON body.''
      \<and> calls (snd (handle sample_world POST ?rp fresh)) = calls fresh"
    using a b c d e f g k a' q
      get_post_same_response [of sample_world ?rg PNone ?rp fresh ?u "''2''" 2 "''{}''"
        "[]" ?u]
    by blast
  have z: "wfile fresh = []" "calls fresh = []"
    by (simp_all add: fresh_def)
  note r1 = r [THEN conjunct1]
    and r2 = r [THEN conjunct2, THEN conjunct1, unfolded z append_Nil]
    and r3 = r [THEN conjunct2, THEN conjunct2, unfolded z]
  from xg xp g r1 r2 r3 show ?thesis
    by blast
qed

text \<open>
  The claim as written fails at \<open>POST /extract\<close> with the body \<open>[]\<close>: the body is valid
  JSON and has no \<open>path\<close> field, but \<open>data.get\<close> raises \<open>AttributeError\<close> on a list, the
  \<open>except Exception\<close> clause answers 500, and a GET request without \<open>path\<close> is answered
  400.
\<close>

theorem post_array_counterexample:
  "urlparse sample_world (path (post_request ''/extract'' ''2'' ''[]''))
     = Inr \<lparr>url_path = ''/extract'', url_query = []\<rparr>
   \<and> headers (post_request ''/extract'' ''2'' ''[]'') ''Content-Length'' = Some ''2''
   \<and> int_of_str sample_world ''2'' = Inr 2
   \<and> rfile_read (post_request ''/extract'' ''2'' ''[]'') 2 = Inr ''[]''
   \<and> utf8_wf ''[]''
   \<and> json_loads sample_world ''[]'' = Inr (PList [])
   \<and> wfile (snd (do_POST sample_world (post_request ''/extract'' ''2'' ''[]'') fresh))
     = plain 500
         ''An unexpected server error occurred while processing POST request: detail''
   \<and> wfile (snd (do_GET sample_world (get_request ''/extract'') fresh))
     = plain 400 ''Error: 'path' parameter is required in the URL query or JSON body.''
   \<and> wfile (snd (do_POST sample_world (post_request ''/extract'' ''2'' ''[]'') fresh))
     \<noteq> wfile (snd (do_GET sample_world (get_request ''/extract'') fresh))"
  by (simp add: sample_world_def sample_defs post_request_def get_request_def sample_urlparse_def
      sample_parse_qs_def sample_int_def sample_json_loads_def byte_in_def do_POST_def
      do_GET_def post_target_def int_of_header_def decode_utf8_def data_get_def
      query_target_def process_request_def required_text_def
      post_except_def reply_text_from_utf8 wfile_reply unexpected_post_text_def fresh_def
      plain_def head_def)

subsection \<open>The listening port\<close>

text \<open>
  C9, as amended. The port \<open>run_server\<close> hands to the listener is 8080 when
  \<open>LISTEN_PORT\<close> is unset, and the integer value of \<open>LISTEN_PORT\<close> when it is set and
  \<open>int\<close> accepts it. When it is set and \<open>int\<close> rejects it, \<open>run_server\<close> ends with the
  exception \<open>int\<close> raised: there is no port, and no fallback to 8080.
\<close>

theorem listen_port:
  "(environ w ''LISTEN_PORT'' = None \<longrightarrow> run_server w = Inr 8080)
   \<and> (environ w ''LISTEN_PORT'' = Some s \<and> int_of_str w s = Inr n
        \<longrightarrow> run_server w = Inr n)
   \<and> (environ w ''LISTEN_PORT'' = Some s \<and> int_of_str w s = Inl e
        \<longrightarrow> run_server w = Inl e)"
  by (simp add: run_server_def)

text \<open>
  The theorem in the sample world with \<open>LISTEN_PORT\<close> unset, set to \<open>9090\<close> and set to
  \<open>abc\<close>.
\<close>

theorem listen_port_witness:
  "environ sample_world ''LISTEN_PORT'' = None
   \<and> run_server sample_world = Inr 8080
   \<and> environ (world_with_port ''9090'') ''LISTEN_PORT'' = Some ''9090''
   \<and> int_of_str (world_with_port ''9090'') ''9090'' = Inr 9090
   \<and> run_server (world_with_port ''9090'') = Inr 9090
   \<and> environ (world_with_port ''abc'') ''LISTEN_PORT'' = Some ''abc''
   \<and> int_of_str (world_with_port ''abc'') ''abc''
     = Inl (Exn ValueError (''invalid literal for int() with base 10: 'abc'' @ [CHR 0x27]))
   \<and> run_server (world_with_port ''abc'')
     = Inl (Exn ValueError (''invalid literal for int() with base 10: 'abc'' @ [CHR 0x27]))"
proof -
  let ?e = "Exn ValueError (''invalid literal for int() with base 10: 'abc'' @ [CHR 0x27])"
  have a: "environ sample_world ''LISTEN_PORT'' = None"
    by (simp add: sample_world_def sample_defs)
  have b: "environ (world_with_port ''9090'') ''LISTEN_PORT'' = Some ''9090''"
    by (simp add: world_with_port_def)
  have c: "int_of_str (world_with_port ''9090'') ''9090'' = Inr 9090"
    by (simp add: world_with_port_def sample_world_def sample_defs sample_int_def byte_in_def)
  have d: "environ (world_with_port ''abc'') ''LISTEN_PORT'' = Some ''abc''"
    by (simp add: world_with_port_def)
  have e: "int_of_str (world_with_port ''abc'') ''abc'' = Inl ?e"
    by (simp add: world_with_port_def sample_world_def sample_defs sample_int_def byte_in_def)
  show ?thesis
    using a b c d e
      listen_port [of sample_world]
      listen_port [of "world_with_port ''9090''" "''9090''" 9090]
      listen_port [of "world_with_port ''abc''" "''abc''" _ ?e]
    by simp
qed

text \<open>
  The claim as written fails with \<open>LISTEN_PORT=abc\<close>: \<open>int('abc')\<close> raises
  \<open>ValueError\<close>, nothing catches it, and the port is not 8080.
\<close>

theorem unparsable_port_counterexample:
  "environ (world_with_port ''abc'') ''LISTEN_PORT'' = Some ''abc''
   \<and> int_of_str (world_with_port ''abc'') ''abc''
     = Inl (Exn ValueError (''invalid literal for int() with base 10: 'abc'' @ [CHR 0x27]))
   \<and> run_server (world_with_port ''abc'') \<noteq> Inr 8080"
  by (simp add: world_with_port_def sample_world_def sample_defs sample_int_def byte_in_def
      run_server_def)

end
